theory Spec2Isabelle
  imports Complex_Main "HOL-Library.AList"
begin

section \<open>Clipboard bridge: the room registry and the broadcast of server.py\<close>

text \<open>
  The relay keeps one process-wide dictionary \<^verbatim>\<open>rooms\<close>, from room code to a
  dictionary with the keys \<^verbatim>\<open>clients\<close> (a set of WebSocket objects),
  \<^verbatim>\<open>last_content\<close> and \<^verbatim>\<open>created_at\<close>. The model passes that dictionary
  explicitly, together with a trace of what the handlers did on the transport.
  Every handler step runs from one state to the next without interleaving: the
  scheduling of coroutines at \<^verbatim>\<open>await\<close> is outside the model.
\<close>

subsection \<open>Values\<close>

text \<open>A WebSocket object is known by its identity only.\<close>

type_synonym conn = nat

text \<open>
  What \<^verbatim>\<open>receive_json\<close> yields and \<^verbatim>\<open>send_json\<close> takes: a decoded JSON value.
  An object is the list of its items, in order, as a Python dict holds them; numbers
  are the integers.
\<close>

datatype json =
    JNull
  | JBool bool
  | JNum int
  | JStr string
  | JArr "json list"
  | JObj "(string \<times> json) list"

text \<open>The exceptions that the handlers raise or meet.\<close>

datatype error =
    HTTPException nat string
  | WebSocketDisconnect
  | KeyError
  | AttributeError
  | RuntimeError

text \<open>Python's truth value of a JSON value, as \<^verbatim>\<open>if x:\<close> tests it.\<close>

fun truthy :: "json \<Rightarrow> bool" where
  "truthy JNull = False"
| "truthy (JBool b) = b"
| "truthy (JNum n) = (n \<noteq> 0)"
| "truthy (JStr s) = (s \<noteq> [])"
| "truthy (JArr xs) = (xs \<noteq> [])"
| "truthy (JObj kvs) = (kvs \<noteq> [])"

text \<open>
  \<^verbatim>\<open>data.get(key, default)\<close>: only a dict has the method; on any other value
  the attribute lookup raises AttributeError.
\<close>

fun py_get :: "json \<Rightarrow> string \<Rightarrow> json \<Rightarrow> error + json" where
  "py_get (JObj kvs) key dflt = Inr (case map_of kvs key of None \<Rightarrow> dflt | Some v \<Rightarrow> v)"
| "py_get _ key dflt = Inl AttributeError"

subsection \<open>Python sets and dicts\<close>

text \<open>
  A set of connections is a list without repetition; the order of the list is the
  order in which the set happens to be iterated.
\<close>

definition set_add :: "conn \<Rightarrow> conn list \<Rightarrow> conn list" where
  "set_add c cs = (if c \<in> set cs then cs else cs @ [c])"

definition set_remove :: "conn \<Rightarrow> conn list \<Rightarrow> error + conn list" where
  "set_remove c cs = (if c \<in> set cs then Inr (removeAll c cs) else Inl KeyError)"

definition set_discard :: "conn \<Rightarrow> conn list \<Rightarrow> conn list" where
  "set_discard c cs = removeAll c cs"

record room =
  clients :: "conn list"
  last_content :: json
  created_at :: real

text \<open>The dict \<^verbatim>\<open>rooms\<close>: its items in insertion order.\<close>

type_synonym registry = "(string \<times> room) list"

text \<open>\<^verbatim>\<open>rooms[code]\<close> raises KeyError for a missing key, and so does \<^verbatim>\<open>del rooms[code]\<close>.\<close>

definition getitem :: "registry \<Rightarrow> string \<Rightarrow> error + room" where
  "getitem rs code = (case map_of rs code of None \<Rightarrow> Inl KeyError | Some r \<Rightarrow> Inr r)"

definition delitem :: "registry \<Rightarrow> string \<Rightarrow> error + registry" where
  "delitem rs code =
     (if map_of rs code = None then Inl KeyError else Inr (AList.delete code rs))"

subsection \<open>The transport and the state\<close>

text \<open>
  What happened on the wire: a handshake accepted, a connection closed with a code
  and a reason, a message written to a connection, a write that raised.
\<close>

datatype event =
    Accepted conn
  | Closed conn nat string
  | Delivered conn json
  | Failed conn json

record world =
  rooms :: registry
  trace :: "event list"

text \<open>
  The transport decides whether a write to a connection succeeds: \<open>net c = None\<close>
  when it does, \<open>net c = Some e\<close> when \<^verbatim>\<open>send_json\<close> raises \<open>e\<close>.
\<close>

type_synonym net = "conn \<Rightarrow> error option"

definition send_json :: "net \<Rightarrow> conn \<Rightarrow> json \<Rightarrow> world \<Rightarrow> error option \<times> world" where
  "send_json net c m w =
     (case net c of
        None \<Rightarrow> (None, w\<lparr>trace := trace w @ [Delivered c m]\<rparr>)
      | Some e \<Rightarrow> (Some e, w\<lparr>trace := trace w @ [Failed c m]\<rparr>))"

definition sync_msg :: "json \<Rightarrow> json" where
  "sync_msg content = JObj [(''type'', JStr ''sync''), (''content'', content)]"

subsection \<open>cleanup_old_rooms\<close>

text \<open>
  The clock reading \<^verbatim>\<open>time.time()\<close> is the argument \<open>current_time\<close>. The list
  comprehension collects the expired codes; the loop deletes them one by one.
\<close>

definition expired_codes :: "real \<Rightarrow> registry \<Rightarrow> string list" where
  "expired_codes current_time rs =
     map fst (filter (\<lambda>(code, data). current_time - created_at data > 86400) rs)"

text \<open>
  The deletions are made in place: when one of them raises, those made before it
  stay. The result is the exception, if any, and the dict as the loop left it.
\<close>

fun delete_codes :: "string list \<Rightarrow> registry \<Rightarrow> error option \<times> registry" where
  "delete_codes [] rs = (None, rs)"
| "delete_codes (code # codes) rs =
     (case delitem rs code of Inl e \<Rightarrow> (Some e, rs) | Inr rs' \<Rightarrow> delete_codes codes rs')"

definition cleanup_old_rooms :: "real \<Rightarrow> registry \<Rightarrow> error option \<times> registry" where
  "cleanup_old_rooms current_time rs = delete_codes (expired_codes current_time rs) rs"

subsection \<open>create_room\<close>

text \<open>
  \<^verbatim>\<open>generate_room_code\<close> draws random codes; the list \<open>codes\<close> holds what its
  successive calls return. The loop takes the first code that is not a key of the
  dict; when every code of the list is taken the loop has not ended, and the result
  is \<open>None\<close>. The two clock readings are \<open>now\<close>, in the sweep, and \<open>now'\<close>, for
  the creation time.
\<close>

fun first_free :: "string list \<Rightarrow> registry \<Rightarrow> string option" where
  "first_free [] rs = None"
| "first_free (room_code # codes) rs =
     (if map_of rs room_code \<noteq> None then first_free codes rs else Some room_code)"

definition create_room ::
  "real \<Rightarrow> real \<Rightarrow> string list \<Rightarrow> world \<Rightarrow> ((error + json) \<times> world) option" where
  "create_room now now' codes w =
     (case cleanup_old_rooms now (rooms w) of
        (Some e, rs) \<Rightarrow> Some (Inl e, w\<lparr>rooms := rs\<rparr>)
      | (None, rs) \<Rightarrow>
          (case first_free codes rs of
             None \<Rightarrow> None
           | Some room_code \<Rightarrow>
               Some (Inr (JObj [(''room_code'', JStr room_code)]),
                     w\<lparr>rooms := AList.update room_code
                          \<lparr>clients = [], last_content = JStr '''', created_at = now'\<rparr> rs\<rparr>)))"

subsection \<open>broadcast_to_room\<close>

text \<open>
  The first loop writes to every client but the excluded one; the bare
  \<^verbatim>\<open>except:\<close> catches whatever a write raises and records the client as dead.
\<close>

fun broadcast_loop ::
  "net \<Rightarrow> json \<Rightarrow> conn option \<Rightarrow> conn list \<Rightarrow> conn list \<Rightarrow> world \<Rightarrow> conn list \<times> world" where
  "broadcast_loop net content exclude [] dead_clients w = (dead_clients, w)"
| "broadcast_loop net content exclude (client # rest) dead_clients w =
     (if Some client \<noteq> exclude then
        (case send_json net client (sync_msg content) w of
           (None, w') \<Rightarrow> broadcast_loop net content exclude rest dead_clients w'
         | (Some e, w') \<Rightarrow> broadcast_loop net content exclude rest (dead_clients @ [client]) w')
      else broadcast_loop net content exclude rest dead_clients w)"

text \<open>The second loop: \<^verbatim>\<open>rooms[room_code]["clients"].discard(client)\<close> for each dead client.\<close>

fun discard_loop :: "string \<Rightarrow> conn list \<Rightarrow> world \<Rightarrow> (error + json) \<times> world" where
  "discard_loop room_code [] w = (Inr JNull, w)"
| "discard_loop room_code (client # rest) w =
     (case getitem (rooms w) room_code of
        Inl e \<Rightarrow> (Inl e, w)
      | Inr r \<Rightarrow>
          discard_loop room_code rest
            (w\<lparr>rooms := AList.update room_code
                 (r\<lparr>clients := set_discard client (clients r)\<rparr>) (rooms w)\<rparr>))"

text \<open>The function returns nothing: its value is \<^verbatim>\<open>None\<close>, here \<open>JNull\<close>.\<close>

definition broadcast_to_room ::
  "net \<Rightarrow> string \<Rightarrow> json \<Rightarrow> conn option \<Rightarrow> world \<Rightarrow> (error + json) \<times> world" where
  "broadcast_to_room net room_code content exclude w =
     (if map_of (rooms w) room_code = None then (Inr JNull, w)
      else
        (case getitem (rooms w) room_code of
           Inl e \<Rightarrow> (Inl e, w)
         | Inr r \<Rightarrow>
             (case broadcast_loop net content exclude (clients r) [] w of
                (dead_clients, w') \<Rightarrow> discard_loop room_code dead_clients w')))"

subsection \<open>sync_clipboard\<close>

text \<open>
  The request body is validated as \<^verbatim>\<open>ClipboardData\<close>, so the content is a string.
  The local \<^verbatim>\<open>room\<close> is a reference to the dict stored under the code; neither
  this handler nor the broadcast rebinds or deletes that entry, so the count read
  through the reference after the broadcast is the count of the entry then. The model
  reads the entry again; the broadcast keeps it, so that lookup does not fail.
\<close>

definition sync_clipboard ::
  "net \<Rightarrow> string \<Rightarrow> string \<Rightarrow> world \<Rightarrow> (error + json) \<times> world" where
  "sync_clipboard net room_code content w =
     (case map_of (rooms w) room_code of
        None \<Rightarrow> (Inl (HTTPException 404 ''Room not found''), w)
      | Some r \<Rightarrow>
          (let w1 = w\<lparr>rooms := AList.update room_code
                         (r\<lparr>last_content := JStr content\<rparr>) (rooms w)\<rparr>
           in case broadcast_to_room net room_code (JStr content) None w1 of
                (Inl e, w2) \<Rightarrow> (Inl e, w2)
              | (Inr _, w2) \<Rightarrow>
                  (case getitem (rooms w2) room_code of
                     Inl e \<Rightarrow> (Inl e, w2)
                   | Inr r2 \<Rightarrow>
                       (Inr (JObj [(''status'', JStr ''synced''),
                                   (''devices'', JNum (int (length (clients r2))))]), w2))))"

subsection \<open>websocket_endpoint\<close>

text \<open>
  A handler either has returned, or has ended with an exception, or is waiting in
  its loop for the next inbound message.
\<close>

datatype status = Returned | Raised error | Listening

text \<open>What \<^verbatim>\<open>receive_json\<close> brings: a decoded message, or WebSocketDisconnect.\<close>

datatype inbound = Message json | Disconnect

text \<open>The handler of \<^verbatim>\<open>except WebSocketDisconnect\<close>.\<close>

definition on_disconnect :: "conn \<Rightarrow> string \<Rightarrow> world \<Rightarrow> status \<times> world" where
  "on_disconnect websocket room_code w =
     (case getitem (rooms w) room_code of
        Inl e \<Rightarrow> (Raised e, w)
      | Inr r \<Rightarrow>
          (case set_remove websocket (clients r) of
             Inl e \<Rightarrow> (Raised e, w)
           | Inr cs \<Rightarrow>
               (Returned, w\<lparr>rooms := AList.update room_code (r\<lparr>clients := cs\<rparr>) (rooms w)\<rparr>)))"

text \<open>
  The \<^verbatim>\<open>try\<close> statement: WebSocketDisconnect raised in the body runs the handler,
  any other exception leaves the function.
\<close>

definition try_except :: "conn \<Rightarrow> string \<Rightarrow> status \<times> world \<Rightarrow> status \<times> world" where
  "try_except websocket room_code res =
     (case res of
        (Raised WebSocketDisconnect, w) \<Rightarrow> on_disconnect websocket room_code w
      | _ \<Rightarrow> res)"

text \<open>The replay of the last content, first statement of the \<^verbatim>\<open>try\<close> body.\<close>

definition replay :: "net \<Rightarrow> conn \<Rightarrow> string \<Rightarrow> world \<Rightarrow> status \<times> world" where
  "replay net websocket room_code w =
     (case getitem (rooms w) room_code of
        Inl e \<Rightarrow> (Raised e, w)
      | Inr r \<Rightarrow>
          if truthy (last_content r) then
            (case send_json net websocket (sync_msg (last_content r)) w of
               (None, w') \<Rightarrow> (Listening, w')
             | (Some e, w') \<Rightarrow> (Raised e, w'))
          else (Listening, w))"

text \<open>From the call of the endpoint to the first \<^verbatim>\<open>receive_json\<close>.\<close>

definition ws_connect :: "net \<Rightarrow> conn \<Rightarrow> string \<Rightarrow> world \<Rightarrow> status \<times> world" where
  "ws_connect net websocket room_code w =
     (if map_of (rooms w) room_code = None then
        (Returned, w\<lparr>trace := trace w @ [Closed websocket 1008 ''Room not found'']\<rparr>)
      else
        (let w1 = w\<lparr>trace := trace w @ [Accepted websocket]\<rparr>
         in case getitem (rooms w1) room_code of
              Inl e \<Rightarrow> (Raised e, w1)
            | Inr r \<Rightarrow>
                try_except websocket room_code
                  (replay net websocket room_code
                     (w1\<lparr>rooms := AList.update room_code
                           (r\<lparr>clients := set_add websocket (clients r)\<rparr>) (rooms w1)\<rparr>))))"

text \<open>One message handled in the body of \<^verbatim>\<open>while True\<close>.\<close>

definition on_message :: "net \<Rightarrow> conn \<Rightarrow> string \<Rightarrow> json \<Rightarrow> world \<Rightarrow> status \<times> world" where
  "on_message net websocket room_code data w =
     (case py_get data ''type'' JNull of
        Inl e \<Rightarrow> (Raised e, w)
      | Inr t \<Rightarrow>
          if t = JStr ''clipboard'' then
            (case py_get data ''content'' (JStr '''') of
               Inl e \<Rightarrow> (Raised e, w)
             | Inr content \<Rightarrow>
                 (case getitem (rooms w) room_code of
                    Inl e \<Rightarrow> (Raised e, w)
                  | Inr r \<Rightarrow>
                      (case broadcast_to_room net room_code content (Some websocket)
                              (w\<lparr>rooms := AList.update room_code
                                    (r\<lparr>last_content := content\<rparr>) (rooms w)\<rparr>) of
                         (Inl e, w') \<Rightarrow> (Raised e, w')
                       | (Inr _, w') \<Rightarrow> (Listening, w'))))
          else (Listening, w))"

text \<open>One turn of the loop: \<^verbatim>\<open>receive_json\<close> and what follows it.\<close>

definition ws_receive :: "net \<Rightarrow> conn \<Rightarrow> string \<Rightarrow> inbound \<Rightarrow> world \<Rightarrow> status \<times> world" where
  "ws_receive net websocket room_code ev w =
     try_except websocket room_code
       (case ev of
          Disconnect \<Rightarrow> (Raised WebSocketDisconnect, w)
        | Message data \<Rightarrow> on_message net websocket room_code data w)"

text \<open>The loop over the messages that arrive; it waits when there is none left.\<close>

fun ws_loop :: "net \<Rightarrow> conn \<Rightarrow> string \<Rightarrow> inbound list \<Rightarrow> world \<Rightarrow> status \<times> world" where
  "ws_loop net websocket room_code [] w = (Listening, w)"
| "ws_loop net websocket room_code (ev # evs) w =
     (case ws_receive net websocket room_code ev w of
        (Listening, w') \<Rightarrow> ws_loop net websocket room_code evs w'
      | res \<Rightarrow> res)"

definition websocket_endpoint ::
  "net \<Rightarrow> conn \<Rightarrow> string \<Rightarrow> inbound list \<Rightarrow> world \<Rightarrow> status \<times> world" where
  "websocket_endpoint net websocket room_code evs w =
     (case ws_connect net websocket room_code w of
        (Listening, w') \<Rightarrow> ws_loop net websocket room_code evs w'
      | res \<Rightarrow> res)"

subsection \<open>The server handling requests one after the other\<close>

text \<open>
  The entry points that change the registry, each with its arguments: room creation,
  content push, the opening of a live channel, and one inbound event on a live channel.
  A run of the server is a list of such requests, each with the state of the transport
  at that moment; the steps of different live channels may alternate in it. A request
  that does not end (room creation without a free code) ends the run with \<open>None\<close>.
\<close>

datatype request =
    Create real real "string list"
  | Push string string
  | Join conn string
  | Inbound conn string inbound

fun handle :: "net \<Rightarrow> request \<Rightarrow> world \<Rightarrow> world option" where
  "handle net (Create now now' codes) w = map_option snd (create_room now now' codes w)"
| "handle net (Push room_code content) w = Some (snd (sync_clipboard net room_code content w))"
| "handle net (Join websocket room_code) w = Some (snd (ws_connect net websocket room_code w))"
| "handle net (Inbound websocket room_code ev) w =
     Some (snd (ws_receive net websocket room_code ev w))"

fun serve :: "(net \<times> request) list \<Rightarrow> world \<Rightarrow> world option" where
  "serve [] w = Some w"
| "serve ((net, req) # reqs) w =
     (case handle net req w of None \<Rightarrow> None | Some w' \<Rightarrow> serve reqs w')"

text \<open>The connection that a request brings into a room, if it is the opening of a channel.\<close>

fun joining :: "net \<times> request \<Rightarrow> conn option" where
  "joining (net, Join websocket room_code) = Some websocket"
| "joining (net, req) = None"

text \<open>The clients of a room, none when the room does not exist.\<close>

definition members :: "world \<Rightarrow> string \<Rightarrow> conn set" where
  "members w room_code =
     (case map_of (rooms w) room_code of None \<Rightarrow> {} | Some r \<Rightarrow> set (clients r))"

subsection \<open>Reading the trace\<close>

text \<open>The connection that an event concerns, and the events that a step added.\<close>

fun event_conn :: "event \<Rightarrow> conn" where
  "event_conn (Accepted c) = c"
| "event_conn (Closed c code reason) = c"
| "event_conn (Delivered c m) = c"
| "event_conn (Failed c m) = c"

definition new_events :: "world \<Rightarrow> world \<Rightarrow> event list" where
  "new_events w w' = drop (length (trace w)) (trace w')"

text \<open>The event that one write of \<open>m\<close> to \<open>c\<close> leaves in the trace.\<close>

definition write_event :: "net \<Rightarrow> json \<Rightarrow> conn \<Rightarrow> event" where
  "write_event net m c = (if net c = None then Delivered c m else Failed c m)"



subsection \<open>The result that the specification gives the broadcast\<close>

text \<open>
  The specification writes the broadcast as returning \<^verbatim>\<open>{delivered: count, pruned: count}\<close>.
  This predicate follows those words: the value is an object whose two fields hold the
  two counts. It is what the value returned by the code is compared with.
\<close>

definition spec_broadcast_result :: "json \<Rightarrow> nat \<Rightarrow> nat \<Rightarrow> bool" where
  "spec_broadcast_result res delivered pruned =
     (py_get res ''delivered'' JNull = Inr (JNum (int delivered)) \<and>
      py_get res ''pruned'' JNull = Inr (JNum (int pruned)))"

section \<open>The loops of the broadcast\<close>

lemma event_conn_write_event: "event_conn (write_event net m c) = c"
  by (simp add: write_event_def)

lemma broadcast_loop_eq:
  "broadcast_loop net content exclude cs dead w =
     (dead @ filter (\<lambda>c. Some c \<noteq> exclude \<and> net c \<noteq> None) cs,
      w\<lparr>trace := trace w @
           map (write_event net (sync_msg content)) (filter (\<lambda>c. Some c \<noteq> exclude) cs)\<rparr>)"
proof (induction cs arbitrary: dead w)
  case Nil
  show ?case by simp
next
  case (Cons c cs)
  show ?case
  proof (cases "Some c \<noteq> exclude")
    case False
    then show ?thesis using Cons.IH by simp
  next
    case True
    show ?thesis
    proof (cases "net c")
      case None
      then show ?thesis using True Cons.IH by (simp add: send_json_def write_event_def)
    next
      case (Some e)
      then show ?thesis using True Cons.IH by (simp add: send_json_def write_event_def)
    qed
  qed
qed

lemma filter_removeAll: "filter P (removeAll x xs) = filter (\<lambda>c. c \<noteq> x \<and> P c) xs"
  by (induction xs) auto

lemma discard_loop_eq:
  "map_of (rooms w) code = Some r \<Longrightarrow>
   discard_loop code dead w =
     (Inr JNull,
      w\<lparr>rooms := AList.update code
            (r\<lparr>clients := filter (\<lambda>c. c \<notin> set dead) (clients r)\<rparr>) (rooms w)\<rparr>)"
proof (induction dead arbitrary: w r)
  case Nil
  then show ?case by (simp add: AList.update_triv)
next
  case (Cons d dead)
  let ?r' = "r\<lparr>clients := set_discard d (clients r)\<rparr>"
  let ?w' = "w\<lparr>rooms := AList.update code ?r' (rooms w)\<rparr>"
  have m: "map_of (rooms ?w') code = Some ?r'"
    by (simp add: AList.update_conv')
  have "discard_loop code (d # dead) w = discard_loop code dead ?w'"
    using Cons.prems by (simp add: getitem_def)
  also have "\<dots> = (Inr JNull,
      ?w'\<lparr>rooms := AList.update code
            (?r'\<lparr>clients := filter (\<lambda>c. c \<notin> set dead) (clients ?r')\<rparr>) (rooms ?w')\<rparr>)"
    by (rule Cons.IH [OF m])
  also have "\<dots> = (Inr JNull,
      w\<lparr>rooms := AList.update code
            (r\<lparr>clients := filter (\<lambda>c. c \<notin> set (d # dead)) (clients r)\<rparr>) (rooms w)\<rparr>)"
    by (simp add: set_discard_def filter_removeAll conj_commute)
  finally show ?case .
qed

lemma filter_not_in_filter:
  "filter (\<lambda>c. c \<notin> set (filter Q cs)) cs = filter (\<lambda>c. \<not> Q c) cs"
  by (rule filter_cong) auto

text \<open>
  The whole broadcast on a room that exists: one write for each client but the excluded
  one, in the order of the iteration, and then the clients whose write raised are gone.
\<close>

lemma broadcast_to_room_eq:
  assumes "map_of (rooms w) code = Some r"
  shows "broadcast_to_room net code content exclude w =
     (Inr JNull,
      w\<lparr>rooms := AList.update code
            (r\<lparr>clients := filter (\<lambda>c. \<not> (Some c \<noteq> exclude \<and> net c \<noteq> None)) (clients r)\<rparr>)
            (rooms w),
        trace := trace w @
           map (write_event net (sync_msg content)) (filter (\<lambda>c. Some c \<noteq> exclude) (clients r))\<rparr>)"
proof -
  let ?w' = "w\<lparr>trace := trace w @
           map (write_event net (sync_msg content)) (filter (\<lambda>c. Some c \<noteq> exclude) (clients r))\<rparr>"
  have m: "map_of (rooms ?w') code = Some r" using assms by simp
  have f: "filter (\<lambda>c. c \<notin> set (filter (\<lambda>c. Some c \<noteq> exclude \<and> net c \<noteq> None) (clients r))) (clients r)
      = filter (\<lambda>c. \<not> (Some c \<noteq> exclude \<and> net c \<noteq> None)) (clients r)"
    by (rule filter_not_in_filter)
  have "broadcast_to_room net code content exclude w =
      discard_loop code (filter (\<lambda>c. Some c \<noteq> exclude \<and> net c \<noteq> None) (clients r)) ?w'"
    using assms by (simp add: broadcast_to_room_def getitem_def broadcast_loop_eq)
  also have "\<dots> = (Inr JNull,
      ?w'\<lparr>rooms := AList.update code
            (r\<lparr>clients := filter (\<lambda>c. \<not> (Some c \<noteq> exclude \<and> net c \<noteq> None)) (clients r)\<rparr>)
            (rooms ?w')\<rparr>)"
    unfolding discard_loop_eq [OF m] f ..
  finally show ?thesis by simp
qed

lemma broadcast_to_room_absent:
  "map_of (rooms w) code = None \<Longrightarrow>
   broadcast_to_room net code content exclude w = (Inr JNull, w)"
  by (simp add: broadcast_to_room_def)

section \<open>The content push\<close>

text \<open>
  C5. A content update to a room code that is not in the registry yields the error
  "Room not found" (HTTP 404) and leaves the whole state as it was: every room keeps
  its clients, its last content and its creation time, and nothing is written to
  any connection.
\<close>

theorem sync_clipboard_missing_room:
  "map_of (rooms w) room_code = None \<Longrightarrow>
   sync_clipboard net room_code content w = (Inl (HTTPException 404 ''Room not found''), w)"
  by (simp add: sync_clipboard_def)

theorem sync_clipboard_missing_room_witness:
  "map_of (rooms \<lparr>rooms = [(''AB12CD'', \<lparr>clients = [1, 2], last_content = JStr ''old'', created_at = 5\<rparr>)],
                  trace = []\<rparr>) ''ZZZZZZ'' = None \<and>
   sync_clipboard (\<lambda>c. None) ''ZZZZZZ'' ''hello''
     \<lparr>rooms = [(''AB12CD'', \<lparr>clients = [1, 2], last_content = JStr ''old'', created_at = 5\<rparr>)],
      trace = []\<rparr>
   = (Inl (HTTPException 404 ''Room not found''),
      \<lparr>rooms = [(''AB12CD'', \<lparr>clients = [1, 2], last_content = JStr ''old'', created_at = 5\<rparr>)],
       trace = []\<rparr>)"
  using sync_clipboard_missing_room
    [of "\<lparr>rooms = [(''AB12CD'', \<lparr>clients = [1, 2], last_content = JStr ''old'', created_at = 5\<rparr>)],
          trace = []\<rparr>" "''ZZZZZZ''" "\<lambda>c. None" "''hello''"]
  by simp

text \<open>
  C1. On a room that exists, the content push stores the pushed content as the room's
  last content, writes the synchronisation message once to every client of the room
  (nobody is excluded), drops the clients whose write raised, and answers with the
  number of clients that remain after that pruning.
\<close>

theorem sync_clipboard_existing_room:
  assumes "map_of (rooms w) room_code = Some r"
  shows "sync_clipboard net room_code content w =
     (Inr (JObj [(''status'', JStr ''synced''),
                 (''devices'', JNum (int (length (filter (\<lambda>c. net c = None) (clients r)))))]),
      w\<lparr>rooms := AList.update room_code
            (r\<lparr>last_content := JStr content,
               clients := filter (\<lambda>c. net c = None) (clients r)\<rparr>) (rooms w),
        trace := trace w @ map (write_event net (sync_msg (JStr content))) (clients r)\<rparr>)"
proof -
  let ?r1 = "r\<lparr>last_content := JStr content\<rparr>"
  let ?w1 = "w\<lparr>rooms := AList.update room_code ?r1 (rooms w)\<rparr>"
  have m: "map_of (rooms ?w1) room_code = Some ?r1"
    by (simp add: AList.update_conv')
  show ?thesis
    using assms
    by (simp add: sync_clipboard_def broadcast_to_room_eq [OF m] getitem_def
        AList.update_conv')
qed

theorem sync_clipboard_existing_room_witness:
  "map_of (rooms \<lparr>rooms = [(''AB12CD'', \<lparr>clients = [1, 2, 3], last_content = JStr ''old'', created_at = 5\<rparr>)],
                  trace = []\<rparr>) ''AB12CD''
     = Some \<lparr>clients = [1, 2, 3], last_content = JStr ''old'', created_at = 5\<rparr> \<and>
   sync_clipboard (Map.empty(2 \<mapsto> RuntimeError)) ''AB12CD'' ''hello''
     \<lparr>rooms = [(''AB12CD'', \<lparr>clients = [1, 2, 3], last_content = JStr ''old'', created_at = 5\<rparr>)],
      trace = []\<rparr>
   = (Inr (JObj [(''status'', JStr ''synced''), (''devices'', JNum 2)]),
      \<lparr>rooms = [(''AB12CD'', \<lparr>clients = [1, 3], last_content = JStr ''hello'', created_at = 5\<rparr>)],
       trace = [Delivered 1 (sync_msg (JStr ''hello'')), Failed 2 (sync_msg (JStr ''hello'')),
                Delivered 3 (sync_msg (JStr ''hello''))]\<rparr>)"
  using sync_clipboard_existing_room
    [of "\<lparr>rooms = [(''AB12CD'', \<lparr>clients = [1, 2, 3], last_content = JStr ''old'', created_at = 5\<rparr>)],
          trace = []\<rparr>" "''AB12CD''"
        "\<lparr>clients = [1, 2, 3], last_content = JStr ''old'', created_at = 5\<rparr>"
        "Map.empty(2 \<mapsto> RuntimeError)" "''hello''"]
  by (simp add: write_event_def)

section \<open>The broadcast\<close>

lemma new_events_append: "trace w' = trace w @ evs \<Longrightarrow> new_events w w' = evs"
  by (simp add: new_events_def)

lemma broadcast_new_events:
  "map_of (rooms w) code = Some r \<Longrightarrow>
   new_events w (snd (broadcast_to_room net code content exclude w)) =
     map (write_event net (sync_msg content)) (filter (\<lambda>c. Some c \<noteq> exclude) (clients r))"
  by (simp add: broadcast_to_room_eq new_events_def)

lemma broadcast_room_after:
  "map_of (rooms w) code = Some r \<Longrightarrow>
   map_of (rooms (snd (broadcast_to_room net code content exclude w))) code =
     Some (r\<lparr>clients := filter (\<lambda>c. \<not> (Some c \<noteq> exclude \<and> net c \<noteq> None)) (clients r)\<rparr>)"
  by (simp add: broadcast_to_room_eq AList.update_conv')

lemma broadcast_result_none: "fst (broadcast_to_room net code content exclude w) = Inr JNull"
proof (cases "map_of (rooms w) code")
  case None
  then show ?thesis by (simp add: broadcast_to_room_absent)
next
  case (Some r)
  then show ?thesis by (simp add: broadcast_to_room_eq)
qed

lemma filter_conn_writes:
  "filter (\<lambda>e. event_conn e = a) (map (write_event net m) cs) =
     map (write_event net m) (filter (\<lambda>c. c = a) cs)"
  by (simp add: filter_map o_def event_conn_write_event)

lemma filter_eq_distinct: "distinct cs \<Longrightarrow> a \<in> set cs \<Longrightarrow> filter (\<lambda>c. c = a) cs = [a]"
  by (induction cs) (auto simp: filter_empty_conv)

lemma filter_eq_absent: "a \<notin> set cs \<Longrightarrow> filter (\<lambda>c. c = a) cs = []"
  by (auto simp: filter_empty_conv)

lemma write_event_fun:
  "write_event net m = (\<lambda>c. if net c = None then Delivered c m else Failed c m)"
  by (rule ext) (simp add: write_event_def)

text \<open>
  C2. A broadcast of content X to a room, with the connection b excluded, makes exactly
  one write to each client of the room other than b, and that write carries X in a
  synchronisation message; it is a delivery when the transport takes the write. No
  write is made to b. The clients of a room form a set, so the list of them has no
  repetition.
\<close>

theorem broadcast_excluding_sender:
  assumes "map_of (rooms w) code = Some r" and "distinct (clients r)"
  shows "(\<forall>a \<in> set (clients r). a \<noteq> b \<longrightarrow>
            filter (\<lambda>e. event_conn e = a)
              (new_events w (snd (broadcast_to_room net code X (Some b) w)))
            = [if net a = None
               then Delivered a (JObj [(''type'', JStr ''sync''), (''content'', X)])
               else Failed a (JObj [(''type'', JStr ''sync''), (''content'', X)])]) \<and>
         filter (\<lambda>e. event_conn e = b)
           (new_events w (snd (broadcast_to_room net code X (Some b) w))) = []"
proof -
  let ?cs = "filter (\<lambda>c. Some c \<noteq> Some b) (clients r)"
  have ev: "new_events w (snd (broadcast_to_room net code X (Some b) w)) =
      map (write_event net (sync_msg X)) ?cs"
    by (rule broadcast_new_events [OF assms(1)])
  have d: "distinct ?cs" using assms(2) by simp
  have "filter (\<lambda>e. event_conn e = a) (map (write_event net (sync_msg X)) ?cs)
        = [if net a = None
           then Delivered a (JObj [(''type'', JStr ''sync''), (''content'', X)])
           else Failed a (JObj [(''type'', JStr ''sync''), (''content'', X)])]"
    if "a \<in> set (clients r)" and "a \<noteq> b" for a
  proof -
    have "a \<in> set ?cs" using that by simp
    then have "filter (\<lambda>c. c = a) ?cs = [a]" using d by (rule filter_eq_distinct [rotated])
    then show ?thesis
      by (simp only: filter_conn_writes) (simp add: write_event_def sync_msg_def)
  qed
  moreover have "filter (\<lambda>e. event_conn e = b) (map (write_event net (sync_msg X)) ?cs) = []"
  proof -
    have "b \<notin> set ?cs" by simp
    then have "filter (\<lambda>c. c = b) ?cs = []" by (rule filter_eq_absent)
    then show ?thesis by (simp only: filter_conn_writes) simp
  qed
  ultimately show ?thesis unfolding ev by blast
qed

theorem broadcast_excluding_sender_witness:
  "map_of (rooms \<lparr>rooms = [(''AB12CD'', \<lparr>clients = [1, 2, 3], last_content = JStr '''', created_at = 0\<rparr>)],
                  trace = []\<rparr>) ''AB12CD''
     = Some \<lparr>clients = [1, 2, 3], last_content = JStr '''', created_at = 0\<rparr> \<and>
   distinct (clients \<lparr>clients = [1, 2, 3], last_content = JStr '''', created_at = 0\<rparr>) \<and>
   filter (\<lambda>e. event_conn e = 1)
     (new_events \<lparr>rooms = [(''AB12CD'', \<lparr>clients = [1, 2, 3], last_content = JStr '''', created_at = 0\<rparr>)],
                  trace = []\<rparr>
        (snd (broadcast_to_room Map.empty ''AB12CD'' (JStr ''X'') (Some 2)
           \<lparr>rooms = [(''AB12CD'', \<lparr>clients = [1, 2, 3], last_content = JStr '''', created_at = 0\<rparr>)],
            trace = []\<rparr>)))
     = [Delivered 1 (JObj [(''type'', JStr ''sync''), (''content'', JStr ''X'')])] \<and>
   filter (\<lambda>e. event_conn e = 3)
     (new_events \<lparr>rooms = [(''AB12CD'', \<lparr>clients = [1, 2, 3], last_content = JStr '''', created_at = 0\<rparr>)],
                  trace = []\<rparr>
        (snd (broadcast_to_room Map.empty ''AB12CD'' (JStr ''X'') (Some 2)
           \<lparr>rooms = [(''AB12CD'', \<lparr>clients = [1, 2, 3], last_content = JStr '''', created_at = 0\<rparr>)],
            trace = []\<rparr>)))
     = [Delivered 3 (JObj [(''type'', JStr ''sync''), (''content'', JStr ''X'')])] \<and>
   filter (\<lambda>e. event_conn e = 2)
     (new_events \<lparr>rooms = [(''AB12CD'', \<lparr>clients = [1, 2, 3], last_content = JStr '''', created_at = 0\<rparr>)],
                  trace = []\<rparr>
        (snd (broadcast_to_room Map.empty ''AB12CD'' (JStr ''X'') (Some 2)
           \<lparr>rooms = [(''AB12CD'', \<lparr>clients = [1, 2, 3], last_content = JStr '''', created_at = 0\<rparr>)],
            trace = []\<rparr>)))
     = []"
proof -
  let ?r = "\<lparr>clients = [1, 2, 3], last_content = JStr '''', created_at = 0\<rparr>"
  let ?w = "\<lparr>rooms = [(''AB12CD'', ?r)], trace = []\<rparr>"
  have h1: "map_of (rooms ?w) ''AB12CD'' = Some ?r" by simp
  have h2: "distinct (clients ?r)" by simp
  from broadcast_excluding_sender [OF h1 h2, of 2 Map.empty "JStr ''X''"] h1 h2
  show ?thesis by simp
qed

text \<open>
  C8, as the specification states it: the broadcast returns the number of clients to
  whom the write succeeded and the number of clients pruned. The function has no
  return statement; with one delivery and one pruned client its value is None, which
  carries no count.
\<close>

theorem broadcast_result_counterexample:
  "fst (broadcast_to_room (Map.empty(2 \<mapsto> RuntimeError)) ''AB12CD'' (JStr ''X'') None
     \<lparr>rooms = [(''AB12CD'', \<lparr>clients = [1, 2], last_content = JStr '''', created_at = 0\<rparr>)],
      trace = []\<rparr>) = Inr JNull \<and>
   \<not> spec_broadcast_result JNull 1 1"
  by (simp add: broadcast_to_room_def getitem_def send_json_def set_discard_def
      spec_broadcast_result_def)

text \<open>
  C8, amended: every call of the broadcast returns None. The two counts are not
  returned; what the call did is visible in the state only: when the room exists, its
  clients afterwards are the clients before without those, other than the excluded
  one, whose write raised, and one write was made for each client other than the
  excluded one.
\<close>

theorem broadcast_returns_none:
  "fst (broadcast_to_room net code content exclude w) = Inr JNull \<and>
   (\<forall>r. map_of (rooms w) code = Some r \<longrightarrow>
      map_of (rooms (snd (broadcast_to_room net code content exclude w))) code =
        Some (r\<lparr>clients := filter (\<lambda>c. Some c = exclude \<or> net c = None) (clients r)\<rparr>) \<and>
      new_events w (snd (broadcast_to_room net code content exclude w)) =
        map (\<lambda>c. if net c = None then Delivered c (sync_msg content)
                  else Failed c (sync_msg content))
            (filter (\<lambda>c. Some c \<noteq> exclude) (clients r)))"
  by (simp add: broadcast_result_none broadcast_room_after broadcast_new_events
      write_event_fun)

theorem broadcast_returns_none_witness:
  "map_of (rooms \<lparr>rooms = [(''AB12CD'', \<lparr>clients = [1, 2], last_content = JStr '''', created_at = 0\<rparr>)],
                  trace = []\<rparr>) ''AB12CD''
     = Some \<lparr>clients = [1, 2], last_content = JStr '''', created_at = 0\<rparr> \<and>
   broadcast_to_room (Map.empty(2 \<mapsto> RuntimeError)) ''AB12CD'' (JStr ''X'') None
     \<lparr>rooms = [(''AB12CD'', \<lparr>clients = [1, 2], last_content = JStr '''', created_at = 0\<rparr>)],
      trace = []\<rparr>
   = (Inr JNull,
      \<lparr>rooms = [(''AB12CD'', \<lparr>clients = [1], last_content = JStr '''', created_at = 0\<rparr>)],
       trace = [Delivered 1 (sync_msg (JStr ''X'')), Failed 2 (sync_msg (JStr ''X''))]\<rparr>)"
  using broadcast_returns_none
    [of "Map.empty(2 \<mapsto> RuntimeError)" "''AB12CD''" "JStr ''X''" None
        "\<lparr>rooms = [(''AB12CD'', \<lparr>clients = [1, 2], last_content = JStr '''', created_at = 0\<rparr>)],
          trace = []\<rparr>"]
  by (simp add: broadcast_to_room_def getitem_def send_json_def set_discard_def)

section \<open>The expiry sweep\<close>

text \<open>
  Deleting a list of distinct codes that are all keys of the dict never raises
  KeyError, and leaves the items under the other keys as they were, in their order.
\<close>

lemma delete_codes_eq:
  "distinct codes \<Longrightarrow> set codes \<subseteq> fst ` set rs \<Longrightarrow>
   delete_codes codes rs = (None, filter (\<lambda>p. fst p \<notin> set codes) rs)"
proof (induction codes arbitrary: rs)
  case Nil
  show ?case by simp
next
  case (Cons code codes)
  have "code \<in> fst ` set rs" using Cons.prems(2) by simp
  then obtain r where present: "map_of rs code = Some r"
    by (cases "map_of rs code") (simp_all add: map_of_eq_None_iff)
  have del: "AList.delete code rs = filter (\<lambda>p. fst p \<noteq> code) rs"
    by (simp add: AList.delete_eq split_def eq_commute [of code])
  have sub: "set codes \<subseteq> fst ` set (AList.delete code rs)"
  proof
    fix k assume k: "k \<in> set codes"
    with Cons.prems(1) have "k \<noteq> code" by auto
    moreover from k Cons.prems(2) obtain p where "p \<in> set rs" "fst p = k" by auto
    ultimately show "k \<in> fst ` set (AList.delete code rs)"
      unfolding del by force
  qed
  have "delete_codes (code # codes) rs = delete_codes codes (AList.delete code rs)"
    using present by (simp add: delitem_def)
  also have "\<dots> = (None, filter (\<lambda>p. fst p \<notin> set codes) (AList.delete code rs))"
    using Cons.prems(1) sub by (intro Cons.IH) simp_all
  also have "filter (\<lambda>p. fst p \<notin> set codes) (AList.delete code rs)
      = filter (\<lambda>p. fst p \<notin> set (code # codes)) rs"
    unfolding del by (rule filter_cong [OF refl, THEN trans [OF filter_filter]]) auto
  finally show ?case .
qed

lemma keys_of_filter:
  assumes "distinct (map fst rs)"
  shows "filter (\<lambda>p. fst p \<notin> set (map fst (filter P rs))) rs = filter (\<lambda>p. \<not> P p) rs"
proof (rule filter_cong [OF refl])
  fix p assume p: "p \<in> set rs"
  have "fst p \<in> set (map fst (filter P rs)) \<longleftrightarrow> P p"
  proof
    assume "fst p \<in> set (map fst (filter P rs))"
    then obtain q where q: "q \<in> set rs" "P q" "fst q = fst p" by auto
    from assms p q(1) q(3) have "q = p"
      by (metis eq_key_imp_eq_value prod.collapse)
    with q(2) show "P p" by simp
  next
    assume "P p"
    with p show "fst p \<in> set (map fst (filter P rs))" by auto
  qed
  then show "(fst p \<notin> set (map fst (filter P rs))) = (\<not> P p)" by simp
qed

text \<open>
  C9, as the specification states it: for every time-to-live, the sweep removes the rooms
  whose age is above it. The sweep takes no time-to-live: the limit is the constant
  86400 of the comparison. A room of age 100 seconds is above a time-to-live of 10
  seconds, and the sweep keeps it.
\<close>

theorem cleanup_ttl_counterexample:
  "(100::real) - created_at \<lparr>clients = [], last_content = JStr '''', created_at = 0\<rparr> > 10 \<and>
   cleanup_old_rooms 100
     [(''AB12CD'', \<lparr>clients = [], last_content = JStr '''', created_at = 0\<rparr>)]
   = (None, [(''AB12CD'', \<lparr>clients = [], last_content = JStr '''', created_at = 0\<rparr>)])"
  by (simp add: cleanup_old_rooms_def expired_codes_def)

text \<open>
  C9, amended: with the time-to-live fixed at 86400 seconds, for every registry (a dict,
  so its keys are distinct) and every clock reading, the sweep raises nothing, removes
  exactly the rooms whose age \<open>now - created_at\<close> is strictly above 86400, and
  leaves every other room as it was (clients, last content and creation time, and the
  order of the dict), whatever the number of its clients, zero included.
\<close>

theorem cleanup_old_rooms_day:
  assumes "distinct (map fst rs)"
  shows "cleanup_old_rooms now rs =
           (None, filter (\<lambda>(code, data). \<not> now - created_at data > 86400) rs)"
proof -
  let ?P = "\<lambda>(code, data). now - created_at data > 86400"
  have d: "distinct (expired_codes now rs)"
    using assms by (simp add: expired_codes_def distinct_map_filter)
  have s: "set (expired_codes now rs) \<subseteq> fst ` set rs"
    by (auto simp: expired_codes_def)
  have "cleanup_old_rooms now rs =
      (None, filter (\<lambda>p. fst p \<notin> set (map fst (filter ?P rs))) rs)"
    unfolding cleanup_old_rooms_def delete_codes_eq [OF d s]
    by (simp add: expired_codes_def)
  also have "filter (\<lambda>p. fst p \<notin> set (map fst (filter ?P rs))) rs = filter (\<lambda>p. \<not> ?P p) rs"
    by (rule keys_of_filter [OF assms])
  also have "(\<lambda>p. \<not> ?P p) = (\<lambda>(code, data). \<not> now - created_at data > 86400)"
    by (simp add: split_def)
  finally show ?thesis .
qed

theorem cleanup_old_rooms_day_witness:
  "distinct (map fst
     [(''OLDOLD'', \<lparr>clients = [1], last_content = JStr ''a'', created_at = 0\<rparr>),
      (''EDGEED'', \<lparr>clients = [], last_content = JStr '''', created_at = 13600\<rparr>),
      (''NEWNEW'', \<lparr>clients = [2, 3], last_content = JStr ''b'', created_at = 99000\<rparr>)]) \<and>
   cleanup_old_rooms 100000
     [(''OLDOLD'', \<lparr>clients = [1], last_content = JStr ''a'', created_at = 0\<rparr>),
      (''EDGEED'', \<lparr>clients = [], last_content = JStr '''', created_at = 13600\<rparr>),
      (''NEWNEW'', \<lparr>clients = [2, 3], last_content = JStr ''b'', created_at = 99000\<rparr>)]
   = (None,
      [(''EDGEED'', \<lparr>clients = [], last_content = JStr '''', created_at = 13600\<rparr>),
       (''NEWNEW'', \<lparr>clients = [2, 3], last_content = JStr ''b'', created_at = 99000\<rparr>)])"
proof -
  let ?rs = "[(''OLDOLD'', \<lparr>clients = [1], last_content = JStr ''a'', created_at = 0\<rparr>),
      (''EDGEED'', \<lparr>clients = [], last_content = JStr '''', created_at = 13600\<rparr>),
      (''NEWNEW'', \<lparr>clients = [2, 3], last_content = JStr ''b'', created_at = 99000\<rparr>)]"
  have h: "distinct (map fst ?rs)" by simp
  from cleanup_old_rooms_day [OF h, of 100000] h show ?thesis by simp
qed

section \<open>The live channel\<close>

text \<open>
  What a handler adds to the trace. The handler of a connection writes to that
  connection only in the replay; its broadcasts exclude it.
\<close>

lemma on_disconnect_trace: "trace (snd (on_disconnect c code w)) = trace w"
  by (simp add: on_disconnect_def split: sum.splits)

lemma try_except_trace: "trace (snd (try_except c code res)) = trace (snd res)"
  by (simp add: try_except_def on_disconnect_trace split: prod.splits status.splits error.splits)

lemma replay_trace:
  "map_of (rooms w) code = Some r \<Longrightarrow>
   trace (snd (replay net c code w)) =
     trace w @ (if truthy (last_content r)
                then [write_event net (sync_msg (last_content r)) c] else [])"
  by (simp add: replay_def getitem_def send_json_def write_event_def split: option.splits)

lemma ws_connect_trace:
  assumes "map_of (rooms w) code = Some r"
  shows "trace (snd (ws_connect net c code w)) =
     trace w @ Accepted c #
       (if truthy (last_content r)
        then [write_event net (sync_msg (last_content r)) c] else [])"
proof -
  let ?r2 = "r\<lparr>clients := set_add c (clients r)\<rparr>"
  let ?w2 = "w\<lparr>trace := trace w @ [Accepted c], rooms := AList.update code ?r2 (rooms w)\<rparr>"
  have m: "map_of (rooms ?w2) code = Some ?r2" by (simp add: AList.update_conv')
  have "ws_connect net c code w = try_except c code (replay net c code ?w2)"
    using assms by (simp add: ws_connect_def getitem_def Let_def)
  then show ?thesis
    by (simp add: try_except_trace replay_trace [OF m])
qed

lemma on_message_clipboard:
  assumes "map_of (rooms w) code = Some r"
    and "py_get data ''type'' JNull = Inr (JStr ''clipboard'')"
    and "py_get data ''content'' (JStr '''') = Inr content"
  shows "on_message net c code data w =
     (Listening,
      w\<lparr>rooms := AList.update code
            (r\<lparr>last_content := content,
               clients := filter (\<lambda>c'. c' = c \<or> net c' = None) (clients r)\<rparr>) (rooms w),
        trace := trace w @
           map (write_event net (sync_msg content)) (filter (\<lambda>c'. c' \<noteq> c) (clients r))\<rparr>)"
proof -
  let ?r1 = "r\<lparr>last_content := content\<rparr>"
  let ?w1 = "w\<lparr>rooms := AList.update code ?r1 (rooms w)\<rparr>"
  have m: "map_of (rooms ?w1) code = Some ?r1" by (simp add: AList.update_conv')
  show ?thesis
    using assms by (simp add: on_message_def getitem_def broadcast_to_room_eq [OF m])
qed







lemma websocket_endpoint_nil: "websocket_endpoint net c code [] w = ws_connect net c code w"
  by (simp add: websocket_endpoint_def split: prod.splits status.splits)

lemma ws_receive_clipboard:
  assumes "map_of (rooms w) code = Some r"
    and "py_get data ''type'' JNull = Inr (JStr ''clipboard'')"
    and "py_get data ''content'' (JStr '''') = Inr content"
  shows "ws_receive net c code (Message data) w =
     (Listening,
      w\<lparr>rooms := AList.update code
            (r\<lparr>last_content := content,
               clients := filter (\<lambda>c'. c' = c \<or> net c' = None) (clients r)\<rparr>) (rooms w),
        trace := trace w @
           map (write_event net (sync_msg content)) (filter (\<lambda>c'. c' \<noteq> c) (clients r))\<rparr>)"
  by (simp add: ws_receive_def on_message_clipboard [OF assms] try_except_def)

text \<open>
  C10. An inbound message that is an object with type "clipboard" and without the key
  "content" sets the room's last content to the empty string and writes
  \<^verbatim>\<open>{type: "sync", content: ""}\<close> once to every other client of the room
  (pruning those whose write raised); the handler goes on listening. A connection that
  joins the room after that is accepted and gets no replay.
\<close>

theorem clipboard_without_content:
  assumes "map_of (rooms w) code = Some r"
    and "map_of kvs ''type'' = Some (JStr ''clipboard'')"
    and "map_of kvs ''content'' = None"
  shows "ws_receive net c code (Message (JObj kvs)) w =
     (Listening,
      w\<lparr>rooms := AList.update code
            (r\<lparr>last_content := JStr '''',
               clients := filter (\<lambda>c'. c' = c \<or> net c' = None) (clients r)\<rparr>) (rooms w),
        trace := trace w @
           map (\<lambda>c'. if net c' = None
                      then Delivered c' (JObj [(''type'', JStr ''sync''), (''content'', JStr '''')])
                      else Failed c' (JObj [(''type'', JStr ''sync''), (''content'', JStr '''')]))
               (filter (\<lambda>c'. c' \<noteq> c) (clients r))\<rparr>) \<and>
    (\<forall>net' c'.
       new_events (snd (ws_receive net c code (Message (JObj kvs)) w))
         (snd (websocket_endpoint net' c' code []
                 (snd (ws_receive net c code (Message (JObj kvs)) w)))) = [Accepted c'])"
proof -
  let ?r' = "r\<lparr>last_content := JStr '''',
               clients := filter (\<lambda>c'. c' = c \<or> net c' = None) (clients r)\<rparr>"
  let ?w' = "w\<lparr>rooms := AList.update code ?r' (rooms w),
        trace := trace w @
           map (write_event net (sync_msg (JStr ''''))) (filter (\<lambda>c'. c' \<noteq> c) (clients r))\<rparr>"
  have g1: "py_get (JObj kvs) ''type'' JNull = Inr (JStr ''clipboard'')"
    using assms(2) by simp
  have g2: "py_get (JObj kvs) ''content'' (JStr '''') = Inr (JStr '''')"
    using assms(3) by simp
  have step: "ws_receive net c code (Message (JObj kvs)) w = (Listening, ?w')"
    by (rule ws_receive_clipboard [OF assms(1) g1 g2])
  have m: "map_of (rooms ?w') code = Some ?r'" by (simp add: AList.update_conv')
  have "new_events ?w' (snd (websocket_endpoint net' c' code [] ?w')) = [Accepted c']"
    for net' c'
    by (simp add: websocket_endpoint_nil ws_connect_trace [OF m] new_events_def)
  then show ?thesis
    unfolding step by (simp add: write_event_fun sync_msg_def)
qed

theorem clipboard_without_content_witness:
  "map_of (rooms \<lparr>rooms = [(''AB12CD'', \<lparr>clients = [1, 2], last_content = JStr ''hello'', created_at = 0\<rparr>)],
                  trace = []\<rparr>) ''AB12CD''
     = Some \<lparr>clients = [1, 2], last_content = JStr ''hello'', created_at = 0\<rparr> \<and>
   map_of [(''type'', JStr ''clipboard'')] ''type'' = Some (JStr ''clipboard'') \<and>
   map_of [(''type'', JStr ''clipboard'')] ''content'' = None \<and>
   ws_receive Map.empty 1 ''AB12CD'' (Message (JObj [(''type'', JStr ''clipboard'')]))
     \<lparr>rooms = [(''AB12CD'', \<lparr>clients = [1, 2], last_content = JStr ''hello'', created_at = 0\<rparr>)],
      trace = []\<rparr>
   = (Listening,
      \<lparr>rooms = [(''AB12CD'', \<lparr>clients = [1, 2], last_content = JStr '''', created_at = 0\<rparr>)],
       trace = [Delivered 2 (JObj [(''type'', JStr ''sync''), (''content'', JStr '''')])]\<rparr>)"
proof -
  let ?r = "\<lparr>clients = [1, 2], last_content = JStr ''hello'', created_at = 0\<rparr>"
  let ?w = "\<lparr>rooms = [(''AB12CD'', ?r)], trace = []\<rparr>"
  have h1: "map_of (rooms ?w) ''AB12CD'' = Some ?r" by simp
  have h2: "map_of [(''type'', JStr ''clipboard'')] ''type'' = Some (JStr ''clipboard'')" by simp
  have h3: "map_of [(''type'', JStr ''clipboard'')] ''content'' = None" by simp
  from clipboard_without_content [OF h1 h2 h3, of Map.empty 1] h1 h2 h3
  show ?thesis by simp
qed

text \<open>An object whose type is not "clipboard" is ignored and the handler goes on listening.\<close>

lemma ws_receive_other_type:
  "py_get data ''type'' JNull = Inr t \<Longrightarrow> t \<noteq> JStr ''clipboard'' \<Longrightarrow>
   ws_receive net c code (Message data) w = (Listening, w)"
  by (simp add: ws_receive_def on_message_def try_except_def)

text \<open>
  When the connection is among the clients of its room, the leave path removes it and
  the handler returns.
\<close>

lemma leave_present:
  "map_of (rooms w) code = Some r \<Longrightarrow> c \<in> set (clients r) \<Longrightarrow>
   ws_receive net c code Disconnect w =
     (Returned, w\<lparr>rooms := AList.update code (r\<lparr>clients := removeAll c (clients r)\<rparr>) (rooms w)\<rparr>)"
  by (simp add: ws_receive_def try_except_def on_disconnect_def getitem_def set_remove_def)

text \<open>
  C6. The leave path is \<^verbatim>\<open>rooms[room_code]["clients"].remove(websocket)\<close> in the
  handler of WebSocketDisconnect. It raises KeyError, which leaves the endpoint as an
  unhandled exception, when the connection is no longer among the clients (here: room
  with the clients {2}, connection 1 disconnects), when the room has expired (the
  registry is empty), and in the run where a content push has pruned connection 1
  because the write to it failed and connection 1 then disconnects. The state is left as
  it was, but the call is not a silent no-op.
\<close>

theorem leave_absent_raises:
  "ws_receive Map.empty 1 ''AB12CD'' Disconnect
     \<lparr>rooms = [(''AB12CD'', \<lparr>clients = [2], last_content = JStr '''', created_at = 0\<rparr>)],
      trace = []\<rparr>
   = (Raised KeyError,
      \<lparr>rooms = [(''AB12CD'', \<lparr>clients = [2], last_content = JStr '''', created_at = 0\<rparr>)],
       trace = []\<rparr>) \<and>
   ws_receive Map.empty 1 ''AB12CD'' Disconnect \<lparr>rooms = [], trace = []\<rparr>
   = (Raised KeyError, \<lparr>rooms = [], trace = []\<rparr>) \<and>
   ws_receive Map.empty 1 ''AB12CD'' Disconnect
     (snd (sync_clipboard (Map.empty(1 \<mapsto> RuntimeError)) ''AB12CD'' ''x''
        \<lparr>rooms = [(''AB12CD'', \<lparr>clients = [1, 2], last_content = JStr '''', created_at = 0\<rparr>)],
         trace = []\<rparr>))
   = (Raised KeyError,
      \<lparr>rooms = [(''AB12CD'', \<lparr>clients = [2], last_content = JStr ''x'', created_at = 0\<rparr>)],
       trace = [Failed 1 (sync_msg (JStr ''x'')), Delivered 2 (sync_msg (JStr ''x''))]\<rparr>)"
  by (simp add: ws_receive_def try_except_def on_disconnect_def getitem_def set_remove_def
      sync_clipboard_def broadcast_to_room_def send_json_def set_discard_def)

text \<open>
  C7. An inbound message that is not a JSON object (here an array, then a string) has no
  method \<^verbatim>\<open>get\<close>: the handler ends with AttributeError, which the
  \<^verbatim>\<open>except WebSocketDisconnect\<close> clause does not catch. The room state is
  unchanged, the connection stays among the clients, and the messages that follow, here
  a well-formed clipboard message, are never handled.
\<close>

theorem non_object_message_raises:
  "ws_receive Map.empty 1 ''AB12CD'' (Message (JArr [JStr ''clipboard'']))
     \<lparr>rooms = [(''AB12CD'', \<lparr>clients = [1, 2], last_content = JStr '''', created_at = 0\<rparr>)],
      trace = []\<rparr>
   = (Raised AttributeError,
      \<lparr>rooms = [(''AB12CD'', \<lparr>clients = [1, 2], last_content = JStr '''', created_at = 0\<rparr>)],
       trace = []\<rparr>) \<and>
   websocket_endpoint Map.empty 1 ''AB12CD''
     [Message (JStr ''hi''),
      Message (JObj [(''type'', JStr ''clipboard''), (''content'', JStr ''x'')])]
     \<lparr>rooms = [(''AB12CD'', \<lparr>clients = [2], last_content = JStr '''', created_at = 0\<rparr>)],
      trace = []\<rparr>
   = (Raised AttributeError,
      \<lparr>rooms = [(''AB12CD'', \<lparr>clients = [2, 1], last_content = JStr '''', created_at = 0\<rparr>)],
       trace = [Accepted 1]\<rparr>)"
  by (simp add: websocket_endpoint_def ws_connect_def replay_def ws_receive_def try_except_def
      on_message_def getitem_def set_add_def)

section \<open>Membership over a run of the server\<close>

text \<open>
  No entry point puts a connection among the clients of a room except the opening of
  that connection's own live channel.
\<close>

lemma members_update:
  "members (w\<lparr>rooms := AList.update k r' (rooms w)\<rparr>) code =
     (if code = k then set (clients r') else members w code)"
  by (simp add: members_def AList.update_conv')

lemma members_trace: "members (w\<lparr>trace := t\<rparr>) code = members w code"
  by (simp add: members_def)

lemma members_room: "map_of (rooms w) k = Some r \<Longrightarrow> members w k = set (clients r)"
  by (simp add: members_def)

lemma members_broadcast:
  "members (snd (broadcast_to_room net k X ex w)) code \<subseteq> members w code"
proof (cases "map_of (rooms w) k")
  case None
  then show ?thesis by (simp add: broadcast_to_room_absent)
next
  case (Some r)
  show ?thesis
    by (auto simp: broadcast_to_room_eq [OF Some] members_def AList.update_conv' Some)
qed

lemma members_sync_clipboard:
  "members (snd (sync_clipboard net k content w)) code \<subseteq> members w code"
proof (cases "map_of (rooms w) k")
  case None
  then show ?thesis by (simp add: sync_clipboard_def)
next
  case (Some r)
  let ?w1 = "w\<lparr>rooms := AList.update k (r\<lparr>last_content := JStr content\<rparr>) (rooms w)\<rparr>"
  have a: "members ?w1 code = members w code"
    using Some by (simp add: members_update members_room)
  have "snd (sync_clipboard net k content w) = snd (broadcast_to_room net k (JStr content) None ?w1)"
    using Some by (simp add: sync_clipboard_def Let_def split: prod.splits sum.splits)
  then show ?thesis
    using members_broadcast [of net k "JStr content" None ?w1 code] a by simp
qed

lemma members_on_disconnect:
  "members (snd (on_disconnect c k w)) code \<subseteq> members w code"
  by (auto simp: on_disconnect_def getitem_def set_remove_def members_def AList.update_conv'
      split: option.splits)

lemma members_try_except:
  "members (snd (try_except c k res)) code \<subseteq> members (snd res) code"
  using members_on_disconnect [of c k "snd res" code]
  by (auto simp: try_except_def split: prod.splits status.splits error.splits)

lemma members_replay: "members (snd (replay net c k w)) code = members w code"
  by (simp add: replay_def getitem_def send_json_def members_def split: option.splits)

lemma members_ws_connect:
  "members (snd (ws_connect net c k w)) code \<subseteq> insert c (members w code)"
proof (cases "map_of (rooms w) k")
  case None
  then show ?thesis by (auto simp: ws_connect_def members_def)
next
  case (Some r)
  let ?w2 = "w\<lparr>trace := trace w @ [Accepted c],
               rooms := AList.update k (r\<lparr>clients := set_add c (clients r)\<rparr>) (rooms w)\<rparr>"
  have e: "ws_connect net c k w = try_except c k (replay net c k ?w2)"
    using Some by (simp add: ws_connect_def getitem_def Let_def)
  have "members ?w2 code \<subseteq> insert c (members w code)"
    using Some by (auto simp: members_def AList.update_conv' set_add_def)
  with members_try_except [of c k "replay net c k ?w2" code]
  show ?thesis unfolding e members_replay by blast
qed

lemma members_on_message:
  "members (snd (on_message net c k data w)) code \<subseteq> members w code"
proof (cases "\<exists>r content. map_of (rooms w) k = Some r \<and>
    py_get data ''type'' JNull = Inr (JStr ''clipboard'') \<and>
    py_get data ''content'' (JStr '''') = Inr content")
  case True
  then obtain r content where h: "map_of (rooms w) k = Some r"
    "py_get data ''type'' JNull = Inr (JStr ''clipboard'')"
    "py_get data ''content'' (JStr '''') = Inr content" by blast
  show ?thesis
    unfolding on_message_clipboard [OF h]
    using h(1) by (auto simp: members_def AList.update_conv')
next
  case False
  then have "snd (on_message net c k data w) = w"
    by (auto simp: on_message_def getitem_def split: sum.splits option.splits)
  then show ?thesis by simp
qed

lemma members_ws_receive:
  "members (snd (ws_receive net c k ev w)) code \<subseteq> members w code"
proof (cases ev)
  case (Message data)
  with members_try_except [of c k "on_message net c k data w" code]
    members_on_message [of net c k data w code]
  show ?thesis by (auto simp: ws_receive_def)
next
  case Disconnect
  with members_try_except [of c k "(Raised WebSocketDisconnect, w)" code]
  show ?thesis by (simp add: ws_receive_def)
qed

lemma map_of_delete_codes:
  "map_of (snd (delete_codes ks rs)) code = None \<or>
   map_of (snd (delete_codes ks rs)) code = map_of rs code"
proof (induction ks arbitrary: rs)
  case Nil
  show ?case by simp
next
  case (Cons k ks)
  show ?case
  proof (cases "map_of rs k")
    case None
    then show ?thesis by (simp add: delitem_def)
  next
    case (Some r)
    then have "delete_codes (k # ks) rs = delete_codes ks (AList.delete k rs)"
      by (simp add: delitem_def)
    with Cons.IH [of "AList.delete k rs"] show ?thesis
      by (auto simp: AList.delete_conv')
  qed
qed

lemma members_create_room:
  assumes "create_room now now' codes w = Some (res, w')"
  shows "members w' code \<subseteq> members w code"
proof -
  obtain err rs where c: "cleanup_old_rooms now (rooms w) = (err, rs)"
    by (cases "cleanup_old_rooms now (rooms w)")
  have m: "map_of rs code = None \<or> map_of rs code = map_of (rooms w) code"
    using map_of_delete_codes [of "expired_codes now (rooms w)" "rooms w" code] c
    by (simp add: cleanup_old_rooms_def)
  have sub: "members (w\<lparr>rooms := rs\<rparr>) code \<subseteq> members w code"
    using m by (auto simp: members_def split: option.splits)
  show ?thesis
  proof (cases err)
    case (Some e)
    with assms c sub show ?thesis by (simp add: create_room_def)
  next
    case None
    with assms c obtain k where
      w': "w' = w\<lparr>rooms := AList.update k
                  \<lparr>clients = [], last_content = JStr '''', created_at = now'\<rparr> rs\<rparr>"
      by (auto simp: create_room_def split: option.splits)
    show ?thesis
      using sub unfolding w' by (auto simp: members_def AList.update_conv' split: option.splits if_splits)
  qed
qed

lemma members_handle:
  assumes "handle net req w = Some w'" and "joining (net, req) \<noteq> Some a"
    and "a \<notin> members w code"
  shows "a \<notin> members w' code"
proof (cases req)
  case (Create now now' codes)
  with assms(1) obtain res where "create_room now now' codes w = Some (res, w')"
    by (cases "create_room now now' codes w") auto
  from members_create_room [OF this, of code] assms(3) show ?thesis by blast
next
  case (Push k content)
  with assms(1) members_sync_clipboard [of net k content w code] assms(3)
  show ?thesis by auto
next
  case (Join c k)
  with assms(2) have "c \<noteq> a" by simp
  with Join assms(1) members_ws_connect [of net c k w code] assms(3)
  show ?thesis by auto
next
  case (Inbound c k ev)
  with assms(1) members_ws_receive [of net c k ev w code] assms(3)
  show ?thesis by auto
qed

lemma members_serve:
  "serve reqs w = Some w' \<Longrightarrow> Some a \<notin> set (map joining reqs) \<Longrightarrow>
   a \<notin> members w code \<Longrightarrow> a \<notin> members w' code"
proof (induction reqs arbitrary: w)
  case Nil
  then show ?case by simp
next
  case (Cons nr reqs)
  obtain net req where nr: "nr = (net, req)" by (cases nr)
  from Cons.prems(1) nr obtain w1 where
    h: "handle net req w = Some w1" and s: "serve reqs w1 = Some w'"
    by (auto split: option.splits)
  from Cons.prems(2) nr have j: "joining (net, req) \<noteq> Some a" by auto
  from members_handle [OF h j Cons.prems(3)] have "a \<notin> members w1 code" .
  with Cons.IH [OF s] Cons.prems(2) show ?case by simp
qed

lemma broadcast_skips_non_member:
  assumes "a \<notin> members w code"
  shows "filter (\<lambda>e. event_conn e = a)
           (new_events w (snd (broadcast_to_room net code X ex w))) = []"
proof (cases "map_of (rooms w) code")
  case None
  then show ?thesis by (simp add: broadcast_to_room_absent new_events_def)
next
  case (Some r)
  with assms have "a \<notin> set (filter (\<lambda>c. Some c \<noteq> ex) (clients r))"
    by (simp add: members_def)
  then have "filter (\<lambda>c. c = a) (filter (\<lambda>c. Some c \<noteq> ex) (clients r)) = []"
    by (rule filter_eq_absent)
  then show ?thesis
    by (simp only: broadcast_new_events [OF Some] filter_conn_writes) simp
qed

text \<open>
  C4. When the write to a client a raises during a broadcast, the broadcast still returns
  normally (its value is None, no exception reaches the caller) and a is no longer among
  the clients of the room when it returns. From then on, after any run of requests
  (room creations, content pushes, openings of other live channels, inbound events on any
  live channel) in which a does not open a channel again, a broadcast to that room,
  whatever its content, its exclusion and the state of the transport, makes no write to a.
\<close>

theorem broadcast_prunes_failed_member:
  assumes "map_of (rooms w) code = Some r"
    and "a \<in> set (clients r)" and "Some a \<noteq> exclude" and "net a = Some e"
  shows "fst (broadcast_to_room net code X exclude w) = Inr JNull \<and>
         (\<exists>r'. map_of (rooms (snd (broadcast_to_room net code X exclude w))) code = Some r' \<and>
               a \<notin> set (clients r')) \<and>
         (\<forall>reqs w' net' X' exclude'.
            serve reqs (snd (broadcast_to_room net code X exclude w)) = Some w' \<longrightarrow>
            Some a \<notin> set (map joining reqs) \<longrightarrow>
            filter (\<lambda>e. event_conn e = a)
              (new_events w' (snd (broadcast_to_room net' code X' exclude' w'))) = [])"
proof -
  let ?w1 = "snd (broadcast_to_room net code X exclude w)"
  let ?r1 = "r\<lparr>clients := filter (\<lambda>c. \<not> (Some c \<noteq> exclude \<and> net c \<noteq> None)) (clients r)\<rparr>"
  have m: "map_of (rooms ?w1) code = Some ?r1"
    by (rule broadcast_room_after [OF assms(1)])
  have out: "a \<notin> set (clients ?r1)" using assms(3,4) by simp
  have gone: "a \<notin> members ?w1 code" using m out by (simp add: members_def)
  have later: "filter (\<lambda>e. event_conn e = a)
          (new_events w' (snd (broadcast_to_room net' code X' exclude' w'))) = []"
    if "serve reqs ?w1 = Some w'" and "Some a \<notin> set (map joining reqs)"
    for reqs w' net' X' exclude'
    by (rule broadcast_skips_non_member [OF members_serve [OF that gone]])
  from m out later show ?thesis by (simp only: broadcast_result_none) blast
qed

theorem broadcast_prunes_failed_member_witness:
  "map_of (rooms \<lparr>rooms = [(''AB12CD'', \<lparr>clients = [1, 2, 3], last_content = JStr '''', created_at = 0\<rparr>)],
                  trace = []\<rparr>) ''AB12CD''
     = Some \<lparr>clients = [1, 2, 3], last_content = JStr '''', created_at = 0\<rparr> \<and>
   2 \<in> set (clients \<lparr>clients = [1, 2, 3], last_content = JStr '''', created_at = 0\<rparr>) \<and>
   Some (2::nat) \<noteq> None \<and>
   (Map.empty(2 \<mapsto> RuntimeError)) (2::nat) = Some RuntimeError \<and>
   fst (broadcast_to_room (Map.empty(2 \<mapsto> RuntimeError)) ''AB12CD'' (JStr ''X'') None
     \<lparr>rooms = [(''AB12CD'', \<lparr>clients = [1, 2, 3], last_content = JStr '''', created_at = 0\<rparr>)],
      trace = []\<rparr>) = Inr JNull \<and>
   serve [(Map.empty, Push ''AB12CD'' ''Y''), (Map.empty, Join 4 ''AB12CD'')]
     (snd (broadcast_to_room (Map.empty(2 \<mapsto> RuntimeError)) ''AB12CD'' (JStr ''X'') None
        \<lparr>rooms = [(''AB12CD'', \<lparr>clients = [1, 2, 3], last_content = JStr '''', created_at = 0\<rparr>)],
         trace = []\<rparr>))
   = Some \<lparr>rooms = [(''AB12CD'', \<lparr>clients = [1, 3, 4], last_content = JStr ''Y'', created_at = 0\<rparr>)],
           trace = [Delivered 1 (sync_msg (JStr ''X'')), Failed 2 (sync_msg (JStr ''X'')),
                    Delivered 3 (sync_msg (JStr ''X'')),
                    Delivered 1 (sync_msg (JStr ''Y'')), Delivered 3 (sync_msg (JStr ''Y'')),
                    Accepted 4, Delivered 4 (sync_msg (JStr ''Y''))]\<rparr> \<and>
   Some 2 \<notin> set (map joining [(Map.empty, Push ''AB12CD'' ''Y''), (Map.empty, Join 4 ''AB12CD'')]) \<and>
   filter (\<lambda>e. event_conn e = 2)
     (new_events
        \<lparr>rooms = [(''AB12CD'', \<lparr>clients = [1, 3, 4], last_content = JStr ''Y'', created_at = 0\<rparr>)],
         trace = [Delivered 1 (sync_msg (JStr ''X'')), Failed 2 (sync_msg (JStr ''X'')),
                  Delivered 3 (sync_msg (JStr ''X'')),
                  Delivered 1 (sync_msg (JStr ''Y'')), Delivered 3 (sync_msg (JStr ''Y'')),
                  Accepted 4, Delivered 4 (sync_msg (JStr ''Y''))]\<rparr>
        (snd (broadcast_to_room Map.empty ''AB12CD'' (JStr ''Z'') None
           \<lparr>rooms = [(''AB12CD'', \<lparr>clients = [1, 3, 4], last_content = JStr ''Y'', created_at = 0\<rparr>)],
            trace = [Delivered 1 (sync_msg (JStr ''X'')), Failed 2 (sync_msg (JStr ''X'')),
                     Delivered 3 (sync_msg (JStr ''X'')),
                     Delivered 1 (sync_msg (JStr ''Y'')), Delivered 3 (sync_msg (JStr ''Y'')),
                     Accepted 4, Delivered 4 (sync_msg (JStr ''Y''))]\<rparr>))) = []"
proof -
  let ?r = "\<lparr>clients = [1, 2, 3], last_content = JStr '''', created_at = 0\<rparr>"
  let ?w = "\<lparr>rooms = [(''AB12CD'', ?r)], trace = []\<rparr>"
  let ?net = "Map.empty(2 \<mapsto> RuntimeError) :: net"
  let ?reqs = "[(Map.empty, Push ''AB12CD'' ''Y''), (Map.empty, Join 4 ''AB12CD'')]
                 :: (net \<times> request) list"
  let ?w' = "\<lparr>rooms = [(''AB12CD'', \<lparr>clients = [1, 3, 4], last_content = JStr ''Y'', created_at = 0\<rparr>)],
         trace = [Delivered 1 (sync_msg (JStr ''X'')), Failed 2 (sync_msg (JStr ''X'')),
                  Delivered 3 (sync_msg (JStr ''X'')),
                  Delivered 1 (sync_msg (JStr ''Y'')), Delivered 3 (sync_msg (JStr ''Y'')),
                  Accepted 4, Delivered 4 (sync_msg (JStr ''Y''))]\<rparr>"
  have h1: "map_of (rooms ?w) ''AB12CD'' = Some ?r" by simp
  have h2: "2 \<in> set (clients ?r)" by simp
  have h3: "Some (2::nat) \<noteq> None" by simp
  have h4: "?net 2 = Some RuntimeError" by simp
  have h5: "serve ?reqs (snd (broadcast_to_room ?net ''AB12CD'' (JStr ''X'') None ?w)) = Some ?w'"
    by (simp add: broadcast_to_room_def getitem_def send_json_def set_discard_def
        sync_clipboard_def ws_connect_def replay_def try_except_def set_add_def)
  have h6: "Some 2 \<notin> set (map joining ?reqs)" by simp
  note t = broadcast_prunes_failed_member
    [where w = ?w and code = "''AB12CD''" and r = ?r and a = 2 and exclude = None
       and net = ?net and e = RuntimeError and X = "JStr ''X''",
     OF h1 h2 h3 h4]
  from t have "filter (\<lambda>e. event_conn e = 2)
     (new_events ?w' (snd (broadcast_to_room Map.empty ''AB12CD'' (JStr ''Z'') None ?w'))) = []"
    using h5 h6 by blast
  with t h1 h2 h3 h4 h5 h6 show ?thesis by blast
qed

section \<open>Connections that the server has not met\<close>
























end
